theory Spec2Isabelle
  imports Complex_Main
begin

section \<open>Shared vocabulary\<close>

text \<open>
  The dashboard is a React application. A component's state variables are the fields of a
  record, an event handler is a function from the state to the next state, and an
  asynchronous handler is split at its \<open>await\<close> into the part that runs when it is called
  and the part that runs when the awaited response arrives.

  JavaScript numbers are modelled as exact rationals (\<open>rat\<close>); an optional or possibly
  absent field (\<open>undefined\<close>) is an \<open>option\<close> with \<open>None\<close> for the absent value.
  Where the code only tests a value for being there (\<open>??\<close>, \<open>||\<close>, \<open>&&\<close>, \<open>!\<close>), \<open>None\<close> also
  stands for \<open>null\<close>. Where it computes with the value, \<open>null\<close> and \<open>undefined\<close> differ and
  the field has the three cases of \<open>field\<close>.
\<close>

text \<open>\<open>type Block = "front" | "left" | "right" | "brake"\<close> (LiveFeed.tsx).\<close>

datatype Block = front | left | right | brake

datatype BrakeStatus = Good | Bad

text \<open>A field of a parsed JSON body: not there, \<open>null\<close>, or a value.\<close>

datatype 'a field = Absent | JsNull | Present 'a

text \<open>The field as a value that is there or not (\<open>null\<close> and \<open>undefined\<close> are not).\<close>

definition nullable :: "'a field \<Rightarrow> 'a option" where
  "nullable f = (case f of Absent \<Rightarrow> None | JsNull \<Rightarrow> None | Present v \<Rightarrow> Some v)"

text \<open>
  The field as an operand of \<open>+\<close> among numbers: \<open>undefined\<close> is not a number (\<open>None\<close>),
  \<open>null\<close> is 0.
\<close>

definition toNumber :: "rat field \<Rightarrow> rat option" where
  "toNumber f = (case f of Absent \<Rightarrow> None | JsNull \<Rightarrow> Some 0 | Present v \<Rightarrow> Some v)"

text \<open>The nullish coalescing operator \<open>a ?? d\<close>.\<close>

definition nullish :: "'a option \<Rightarrow> 'a \<Rightarrow> 'a" where
  "nullish a d = (case a of None \<Rightarrow> d | Some v \<Rightarrow> v)"

text \<open>Truthiness of a string-or-null value and of a number-or-null value.\<close>

definition truthy_str :: "string option \<Rightarrow> bool" where
  "truthy_str v = (case v of None \<Rightarrow> False | Some s \<Rightarrow> s \<noteq> [])"

definition truthy_num :: "rat option \<Rightarrow> bool" where
  "truthy_num v = (case v of None \<Rightarrow> False | Some x \<Rightarrow> x \<noteq> 0)"

text \<open>\<open>a || b\<close> on string-or-null values.\<close>

definition js_or :: "string option \<Rightarrow> string option \<Rightarrow> string option" where
  "js_or a b = (if truthy_str a then a else b)"

text \<open>A value spliced into a template literal: an absent one prints as \<open>undefined\<close>.\<close>

definition template_str :: "string option \<Rightarrow> string" where
  "template_str v = (case v of None \<Rightarrow> ''undefined'' | Some s \<Rightarrow> s)"

definition jpeg_data_url :: "string option \<Rightarrow> string" where
  "jpeg_data_url v = ''data:image/jpeg;base64,'' @ template_str v"

section \<open>App.tsx: analysis results and the repair bill\<close>

text \<open>\<open>interface AnalysisResult\<close>: every field is optional.\<close>

record AnalysisResult =
  scratches :: "rat option"
  dents :: "rat option"
  cracks :: "rat option"
  imageUrl :: "string option"
  beforeImage :: "string option"
  annotatedImage :: "string option"
  annotatedImageUrl :: "string option"
  brakeStatus :: "BrakeStatus option"

text \<open>The empty object \<open>{}\<close> as an \<open>AnalysisResult\<close>.\<close>

definition emptyResult :: AnalysisResult where
  "emptyResult = \<lparr> scratches = None, dents = None, cracks = None, imageUrl = None,
     beforeImage = None, annotatedImage = None, annotatedImageUrl = None,
     brakeStatus = None \<rparr>"

text \<open>
  One entry of the \<open>feedAnalysis\<close> state of \<open>App\<close>. The counts are numbers in every entry
  the application builds; \<open>updateTotalCost\<close> still guards them with \<open>?? 0\<close>, so they are
  optional here.
\<close>

record FeedEntry =
  fe_scratches :: "rat option"
  fe_dents :: "rat option"
  fe_cracks :: "rat option"
  fe_imageUrl :: string
  fe_beforeImage :: string
  fe_annotatedImage :: string
  fe_annotatedImageUrl :: string
  fe_brakeStatus :: "BrakeStatus option"

text \<open>
  \<open>feedAnalysis\<close>: one entry per station. \<open>updateTotalCost\<close> guards each entry with
  \<open>|| { scratches: 0, dents: 0 }\<close>, so an entry may be missing.
\<close>

type_synonym FeedAnalysis = "Block \<Rightarrow> FeedEntry option"

definition initialEntry :: FeedEntry where
  "initialEntry = \<lparr> fe_scratches = Some 0, fe_dents = Some 0, fe_cracks = Some 0,
     fe_imageUrl = [], fe_beforeImage = [], fe_annotatedImage = [],
     fe_annotatedImageUrl = [], fe_brakeStatus = None \<rparr>"

definition initialFeedAnalysis :: FeedAnalysis where
  "initialFeedAnalysis = (\<lambda>b. Some initialEntry)"

text \<open>\<open>interface ServiceRecord\<close> (types/index.ts); \<open>brake_wear_rate\<close> is read with \<open>?? 0\<close>.\<close>

record ServiceRecord =
  sr_id :: string
  vehicle_id :: string
  scratches_count :: rat
  dents_count :: rat
  brake_wear_rate :: "rat option"
  brake_lifetime_days :: rat
  crack_count :: rat
  battery_level :: rat
  drivable_range_km :: rat
  vibration_level :: string
  service_status :: string
  total_cost :: rat
  payment_status :: string

definition initialServiceRecord :: ServiceRecord where
  "initialServiceRecord = \<lparr> sr_id = ''455e445f-c11b-4db7-8c78-e62f8df86614'',
     vehicle_id = ''1'', scratches_count = 0, dents_count = 0,
     brake_wear_rate = Some (91 / 2), brake_lifetime_days = 120, crack_count = 0,
     battery_level = 78, drivable_range_km = 245, vibration_level = ''Normal'',
     service_status = ''In Progress'', total_cost = 0, payment_status = ''Pending'' \<rparr>"

text \<open>
  The pair of counts \<open>updateTotalCost\<close> reads from a station:
  \<open>updatedAnalysis.front || { scratches: 0, dents: 0 }\<close>.
\<close>

definition entryCounts :: "FeedEntry option \<Rightarrow> rat option \<times> rat option" where
  "entryCounts e = (case e of None \<Rightarrow> (Some 0, Some 0)
                    | Some x \<Rightarrow> (fe_scratches x, fe_dents x))"

definition stationCost :: "FeedEntry option \<Rightarrow> rat" where
  "stationCost e = nullish (fst (entryCounts e)) 0 * 300 + nullish (snd (entryCounts e)) 0 * 500"

text \<open>
  \<open>updateTotalCost\<close>: the total is computed from the four entries and the record's
  brake wear rate, and replaces \<open>total_cost\<close>.
\<close>

definition updateTotalCost :: "FeedAnalysis \<Rightarrow> ServiceRecord \<Rightarrow> ServiceRecord" where
  "updateTotalCost updatedAnalysis serviceRecord =
     (let total = stationCost (updatedAnalysis front) + stationCost (updatedAnalysis left)
                + stationCost (updatedAnalysis right) + stationCost (updatedAnalysis brake)
                + nullish (brake_wear_rate serviceRecord) 0 * 20 + 500
      in serviceRecord\<lparr> total_cost := total \<rparr>)"

text \<open>
  \<open>handleAnalysisComplete\<close>: the station's entry is rebuilt from the result, absent fields
  replaced by their defaults, and the total is recomputed from the updated entries.
\<close>

definition resultEntry :: "AnalysisResult \<Rightarrow> FeedEntry" where
  "resultEntry result = \<lparr> fe_scratches = Some (nullish (scratches result) 0),
     fe_dents = Some (nullish (dents result) 0),
     fe_cracks = Some (nullish (cracks result) 0),
     fe_imageUrl = nullish (imageUrl result) [],
     fe_beforeImage = nullish (beforeImage result) [],
     fe_annotatedImage = nullish (annotatedImage result) [],
     fe_annotatedImageUrl = nullish (annotatedImageUrl result) [],
     fe_brakeStatus = brakeStatus result \<rparr>"

definition handleAnalysisComplete ::
  "Block \<Rightarrow> AnalysisResult \<Rightarrow> FeedAnalysis \<times> ServiceRecord \<Rightarrow> FeedAnalysis \<times> ServiceRecord" where
  "handleAnalysisComplete block result st =
     (let updated = (fst st)(block \<mapsto> resultEntry result)
      in (updated, updateTotalCost updated (snd st)))"

section \<open>LiveFeed.tsx: state of the component\<close>

text \<open>
  \<open>videoSource\<close>: \<open>'pi' | 'webcam' | 'rpi' | 'none'\<close>. The constructors carry a prefix
  since \<open>pi\<close> is a constant of the library.
\<close>

datatype VideoSource = src_pi | src_webcam | src_rpi | src_none

text \<open>\<open>interface BlockState\<close>: the capture slot of one station.\<close>

record BlockState =
  bs_beforeImage :: "string option"
  afterImage :: "string option"
  loading :: bool
  analysisResult :: AnalysisResult

definition emptyBlock :: BlockState where
  "emptyBlock = \<lparr> bs_beforeImage = None, afterImage = None, loading = False,
     analysisResult = emptyResult \<rparr>"

text \<open>
  \<open>interface StationWebcamState\<close>. A media stream is an opaque handle; \<open>videoRef\<close> is a
  mutable reference into the page, so whether it is mounted is part of the environment of
  a capture (see \<open>CaptureEnv\<close>).
\<close>

record StationWebcamState =
  stream :: "nat option"
  selectedDeviceId :: string
  wc_loading :: bool
  wc_error :: "string option"

record RpiCamera =
  cam_id :: string
  cam_name :: string
  cam_url :: string

record ConnectionStatus =
  connected :: bool
  lastUpdate :: "rat option"

text \<open>
  The values of \<open>piStatus\<close>; the text of each is fixed apart from the number it shows.
\<close>

datatype PiStatus =
    WaitingForConnection
  | SystemActive nat
  | WaitingForFeeds
  | BackendOffline
  | SwitchingToCam nat

record PiStats =
  ps_dents :: "rat option"
  ps_scratches :: "rat option"
  ps_cracks :: "rat option"

text \<open>
  What a call of \<open>captureFromFeed\<close> reads from the render it was created in: the source
  and the feeds. The timer callback of the sequencer keeps the \<open>captureFromFeed\<close> of the
  render in which the sequence was started, so these values are kept apart from the rest
  of the state and a copy of them travels with the timer.
\<close>

record FeedView =
  videoSource :: VideoSource
  stationWebcams :: "Block \<Rightarrow> StationWebcamState"
  availableRpiCameras :: "RpiCamera list"
  selectedRpiCameras :: "Block \<Rightarrow> string"
  stationPiFeeds :: "Block \<Rightarrow> string option"
  piImage :: "string option"
  piRawImage :: "string option"

text \<open>
  The armed interval timer of the sequencer: the closure variable \<open>currentIndex\<close> and the
  render the callback was created in.
\<close>

record AutoTimer =
  currentIndex :: nat
  closure :: FeedView

text \<open>
  The component's state. \<open>captureCalls\<close> is not a variable of the source: it records, in
  order, the stations for which the sequencer has called \<open>captureFromFeed\<close>.
\<close>

record LiveFeedState =
  view :: FeedView
  stationConnectionStatus :: "Block \<Rightarrow> ConnectionStatus"
  piStats :: PiStats
  piStatus :: PiStatus
  autoCapturing :: bool
  currentAutoStation :: "Block option"
  autoCaptureTimerRef :: "AutoTimer option"
  blocks :: "Block \<Rightarrow> BlockState"
  captureCalls :: "Block list"

definition initialWebcam :: StationWebcamState where
  "initialWebcam = \<lparr> stream = None, selectedDeviceId = [], wc_loading = False,
     wc_error = None \<rparr>"

definition initialView :: FeedView where
  "initialView = \<lparr> videoSource = src_none, stationWebcams = (\<lambda>b. initialWebcam),
     availableRpiCameras = [], selectedRpiCameras = (\<lambda>b. []),
     stationPiFeeds = (\<lambda>b. None), piImage = None, piRawImage = None \<rparr>"

definition initialLiveFeed :: LiveFeedState where
  "initialLiveFeed = \<lparr> view = initialView,
     stationConnectionStatus = (\<lambda>b. \<lparr> connected = False, lastUpdate = None \<rparr>),
     piStats = \<lparr> ps_dents = Some 0, ps_scratches = Some 0, ps_cracks = Some 0 \<rparr>,
     piStatus = WaitingForConnection, autoCapturing = False, currentAutoStation = None,
     autoCaptureTimerRef = None, blocks = (\<lambda>b. emptyBlock), captureCalls = [] \<rparr>"

text \<open>\<open>setBlocks(p => ({ ...p, [block]: f(p[block]) }))\<close>.\<close>

definition setBlock :: "Block \<Rightarrow> (BlockState \<Rightarrow> BlockState) \<Rightarrow> LiveFeedState \<Rightarrow> LiveFeedState" where
  "setBlock block f s = s\<lparr> blocks := (blocks s)(block := f (blocks s block)) \<rparr>"

section \<open>LiveFeed.tsx: capture and analysis\<close>

text \<open>The alerts with which \<open>captureFromFeed\<close> gives up before anything is stored.\<close>

datatype CaptureError =
    NoPiFeedAvailable Block
  | SourceFetchFailed
  | NoRpiCameraSelected Block
  | RpiCameraNotFound Block
  | RpiHttpError nat
  | RpiFetchFailed
  | NoWebcamStream Block
  | NoCanvasContext
  | BlobNeverDelivered

text \<open>
  What the page and the network answer while a frame is taken: whether fetching the data
  URL of a cached frame succeeds, the answer of the camera's snapshot endpoint (\<open>None\<close>
  when the request throws, an HTTP status when it is not ok, the frame as a data URL
  otherwise), whether the station's video element is mounted, whether the canvas gives a
  drawing context and a blob, and the data URL the canvas renders.
\<close>

record CaptureEnv =
  sourceFetchOk :: bool
  snapshot :: "(nat + string) option"
  videoMounted :: bool
  canvasContext :: bool
  canvasBlob :: bool
  canvasDataUrl :: string

text \<open>\<open>availableRpiCameras.find(cam => cam.id === selectedCameraId)\<close>.\<close>

definition findCamera :: "RpiCamera list \<Rightarrow> string \<Rightarrow> RpiCamera option" where
  "findCamera cams cid = List.find (\<lambda>cam. cam_id cam = cid) cams"

text \<open>
  The first part of \<open>captureFromFeed\<close>: taking the still image. The result is the
  \<open>sourceImageUrl\<close>, or the reason why the function returns without storing anything.
  The last branch is the source's \<open>else\<close>: it also runs when the source is \<open>none\<close>.
\<close>

definition acquireFrame :: "FeedView \<Rightarrow> CaptureEnv \<Rightarrow> Block \<Rightarrow> CaptureError + string" where
  "acquireFrame v env block =
     (if videoSource v = src_pi then
        (let stationFeed = stationPiFeeds v block;
             sourceImage = js_or (js_or stationFeed (piRawImage v)) (piImage v)
         in if \<not> truthy_str sourceImage then Inl (NoPiFeedAvailable block)
            else (case sourceImage of
                    None \<Rightarrow> Inl (NoPiFeedAvailable block)
                  | Some img \<Rightarrow> if \<not> sourceFetchOk env then Inl SourceFetchFailed
                                else Inr img))
      else if videoSource v = src_rpi then
        (let selectedCameraId = selectedRpiCameras v block
         in if selectedCameraId = [] then Inl (NoRpiCameraSelected block)
            else (case findCamera (availableRpiCameras v) selectedCameraId of
                    None \<Rightarrow> Inl (RpiCameraNotFound block)
                  | Some selectedCamera \<Rightarrow>
                      (case snapshot env of
                         None \<Rightarrow> Inl RpiFetchFailed
                       | Some (Inl status) \<Rightarrow> Inl (RpiHttpError status)
                       | Some (Inr url) \<Rightarrow> Inr url)))
      else
        (let stationState = stationWebcams v block
         in if \<not> videoMounted env \<or> stream stationState = None then Inl (NoWebcamStream block)
            else if \<not> canvasContext env then Inl NoCanvasContext
            else if \<not> canvasBlob env then Inl BlobNeverDelivered
            else Inr (canvasDataUrl env)))"

text \<open>
  \<open>setBlocks(p => ({ ...p, [block]: { ...p[block], loading: true, beforeImage: url } }))\<close>:
  the slot is marked busy and the still is stored.
\<close>

definition markLoading :: "Block \<Rightarrow> string \<Rightarrow> LiveFeedState \<Rightarrow> LiveFeedState" where
  "markLoading block url s =
     setBlock block (\<lambda>b. b\<lparr> loading := True, bs_beforeImage := Some url \<rparr>) s"

text \<open>
  \<open>captureFromFeed\<close> up to its request to the analysis endpoint, run with the values
  of the render \<open>v\<close>: on success the slot is busy and the request is under way.
\<close>

definition captureFromFeed_begin ::
  "FeedView \<Rightarrow> CaptureEnv \<Rightarrow> Block \<Rightarrow> LiveFeedState \<Rightarrow> CaptureError + (string \<times> LiveFeedState)" where
  "captureFromFeed_begin v env block s =
     (case acquireFrame v env block of
        Inl e \<Rightarrow> Inl e
      | Inr url \<Rightarrow> Inr (url, markLoading block url s))"

text \<open>
  The JSON body of the analysis endpoint's answer, as far as the component reads it.
\<close>

record AnalysisResponse =
  res_annotatedImage :: "string option"
  scratchCount :: "rat field"
  dentCount :: "rat field"
  crackCount :: "rat field"
  res_imageUrl :: "string option"
  res_annotatedImageUrl :: "string option"

text \<open>
  \<open>analyzeImageFile\<close> either throws (the request fails, the status is not ok, the body is
  not JSON) or returns the body.
\<close>

datatype AnalysisError = AnalysisRequestFailed

type_synonym AnalysisOutcome = "AnalysisError + AnalysisResponse"

text \<open>
  \<open>(scratchCount + dentCount + crackCount) > 0\<close>: a \<open>null\<close> count adds 0; with an absent
  count the sum is not a number and the comparison is false.
\<close>

definition hasDefects :: "AnalysisResponse \<Rightarrow> bool" where
  "hasDefects r = (case (toNumber (scratchCount r), toNumber (dentCount r),
                         toNumber (crackCount r)) of
                     (Some a, Some b, Some c) \<Rightarrow> a + b + c > 0
                   | _ \<Rightarrow> False)"

definition brakeStatusOf :: "AnalysisResponse \<Rightarrow> BrakeStatus" where
  "brakeStatusOf r = (if hasDefects r then Bad else Good)"

text \<open>The slot after a response has been accepted.\<close>

definition storeResult :: "Block \<Rightarrow> AnalysisResponse \<Rightarrow> LiveFeedState \<Rightarrow> LiveFeedState" where
  "storeResult block r s =
     setBlock block (\<lambda>b. b\<lparr> loading := False,
        afterImage := Some (jpeg_data_url (res_annotatedImage r)),
        analysisResult := emptyResult\<lparr> scratches := nullable (scratchCount r),
          dents := nullable (dentCount r), cracks := nullable (crackCount r),
          brakeStatus := Some (brakeStatusOf r) \<rparr> \<rparr>) s"

text \<open>The argument handed to \<open>onAnalysisComplete\<close>.\<close>

definition completionPayload :: "string \<Rightarrow> AnalysisResponse \<Rightarrow> AnalysisResult" where
  "completionPayload sourceImageUrl r =
     \<lparr> scratches = nullable (scratchCount r), dents = nullable (dentCount r),
       cracks = nullable (crackCount r),
       imageUrl = res_imageUrl r, beforeImage = Some sourceImageUrl,
       annotatedImage = Some (jpeg_data_url (res_annotatedImage r)),
       annotatedImageUrl = res_annotatedImageUrl r,
       brakeStatus = Some (brakeStatusOf r) \<rparr>"

text \<open>The \<open>catch\<close> branch: \<open>setBlocks(p => ({ ...p, [block]: { ...p[block], loading: false } }))\<close>.\<close>

definition clearLoading :: "Block \<Rightarrow> LiveFeedState \<Rightarrow> LiveFeedState" where
  "clearLoading block s = setBlock block (\<lambda>b. b\<lparr> loading := False \<rparr>) s"

text \<open>
  \<open>captureFromFeed\<close> from the answer of \<open>analyzeImageFile\<close> on: the new state and the call
  of \<open>onAnalysisComplete\<close>, if one is made. A body is used as it is, whatever it holds.
\<close>

definition captureFromFeed_complete ::
  "Block \<Rightarrow> string \<Rightarrow> AnalysisOutcome \<Rightarrow> LiveFeedState \<Rightarrow> LiveFeedState \<times> (Block \<times> AnalysisResult) option" where
  "captureFromFeed_complete block sourceImageUrl outcome s =
     (case outcome of
        Inl e \<Rightarrow> (clearLoading block s, None)
      | Inr r \<Rightarrow> (storeResult block r s, Some (block, completionPayload sourceImageUrl r)))"

text \<open>
  The upload handler of a station (\<open>reader.onload\<close>): the same two parts, the still being
  the uploaded file's data URL. A body without a usable \<open>annotatedImage\<close> is thrown away
  (\<open>throw new Error("No annotated image returned")\<close>).
\<close>

definition upload_begin :: "Block \<Rightarrow> string \<Rightarrow> LiveFeedState \<Rightarrow> LiveFeedState" where
  "upload_begin block beforeImageUrl s = markLoading block beforeImageUrl s"

definition upload_complete ::
  "Block \<Rightarrow> string \<Rightarrow> AnalysisOutcome \<Rightarrow> LiveFeedState \<Rightarrow> LiveFeedState \<times> (Block \<times> AnalysisResult) option" where
  "upload_complete block beforeImageUrl outcome s =
     (case outcome of
        Inl e \<Rightarrow> (clearLoading block s, None)
      | Inr r \<Rightarrow>
          if \<not> truthy_str (res_annotatedImage r) then (clearLoading block s, None)
          else (storeResult block r s, Some (block, completionPayload beforeImageUrl r)))"

text \<open>\<open>resetBlock\<close>.\<close>

definition resetBlock :: "Block \<Rightarrow> LiveFeedState \<Rightarrow> LiveFeedState" where
  "resetBlock block s = s\<lparr> blocks := (blocks s)(block := emptyBlock) \<rparr>"

section \<open>LiveFeed.tsx: the auto-capture sequencer\<close>

definition stationOrder :: "Block list" where
  "stationOrder = [front, left, right, brake]"

datatype StartRejected = SelectSourceFirst | AlreadyCapturing

text \<open>
  \<open>startAutoCapture\<close>: rejected without a source or while a sequence runs; otherwise the
  running flag is set, the first station is shown as the current one and the interval
  timer is armed with \<open>currentIndex = 0\<close>. Nothing else happens at start.
\<close>

definition startAutoCapture :: "LiveFeedState \<Rightarrow> StartRejected + LiveFeedState" where
  "startAutoCapture s =
     (if videoSource (view s) = src_none then Inl SelectSourceFirst
      else if autoCapturing s then Inl AlreadyCapturing
      else Inr (s\<lparr> autoCapturing := True,
                   currentAutoStation := Some (hd stationOrder),
                   autoCaptureTimerRef := Some \<lparr> currentIndex = 0, closure = view s \<rparr> \<rparr>))"

text \<open>
  One run of the interval callback. With no timer armed the callback does not run. While
  \<open>currentIndex\<close> is inside the station order, the station at that index becomes the
  current one, \<open>captureFromFeed\<close> is called for it (the second component: the render whose
  \<open>captureFromFeed\<close> is called, and the station) and the index moves on; otherwise the
  timer is cancelled and the sequencer's state is cleared.
\<close>

definition autoCaptureTick :: "LiveFeedState \<Rightarrow> LiveFeedState \<times> (FeedView \<times> Block) option" where
  "autoCaptureTick s =
     (case autoCaptureTimerRef s of
        None \<Rightarrow> (s, None)
      | Some t \<Rightarrow>
          if currentIndex t < length stationOrder then
            (let station = stationOrder ! currentIndex t
             in (s\<lparr> currentAutoStation := Some station,
                     captureCalls := captureCalls s @ [station],
                     autoCaptureTimerRef := Some (t\<lparr> currentIndex := currentIndex t + 1 \<rparr>) \<rparr>,
                 Some (closure t, station)))
          else
            (s\<lparr> autoCaptureTimerRef := None, autoCapturing := False,
                 currentAutoStation := None \<rparr>, None))"

section \<open>LiveFeed.tsx: polling the remote feed\<close>

text \<open>The body of \<open>/api/station-feed/<station>\<close>.\<close>

record FeedData =
  fd_annotatedImage :: "string option"
  fd_timestamp :: "rat option"

text \<open>The body of \<open>/api/latest-detection\<close>.\<close>

record LatestDetection =
  ld_annotatedImage :: "string option"
  ld_cleanImage :: "string option"
  ld_dentCount :: "rat option"
  ld_scratchCount :: "rat option"
  ld_crackCount :: "rat option"

text \<open>
  One station's request: \<open>None\<close> is a request that throws. A body without a usable
  image gives no image and no timestamp.
\<close>

definition stationResult :: "FeedData option \<Rightarrow> string option \<times> rat option" where
  "stationResult r =
     (case r of
        None \<Rightarrow> (None, None)
      | Some d \<Rightarrow> if truthy_str (fd_annotatedImage d)
                  then (Some (jpeg_data_url (fd_annotatedImage d)), fd_timestamp d)
                  else (None, None))"

text \<open>\<open>timestamp && (currentTime - timestamp) < 3\<close>.\<close>

definition fresh :: "rat \<Rightarrow> rat option \<Rightarrow> bool" where
  "fresh currentTime timestamp =
     (case timestamp of None \<Rightarrow> False | Some t \<Rightarrow> t \<noteq> 0 \<and> currentTime - t < 3)"

definition disconnected :: ConnectionStatus where
  "disconnected = \<lparr> connected = False, lastUpdate = None \<rparr>"

text \<open>
  \<open>results.forEach\<close> over the four stations' results, starting from feeds that are all
  \<open>null\<close> and statuses that are all disconnected.
\<close>

definition pollStations ::
  "rat \<Rightarrow> (Block \<Rightarrow> FeedData option) \<Rightarrow> (Block \<Rightarrow> string option) \<times> (Block \<Rightarrow> ConnectionStatus)" where
  "pollStations currentTime fetched =
     foldl (\<lambda>acc station.
              (let image = fst (stationResult (fetched station));
                   timestamp = snd (stationResult (fetched station))
               in ((fst acc)(station := image),
                   if fresh currentTime timestamp
                   then (snd acc)(station := \<lparr> connected = True, lastUpdate = timestamp \<rparr>)
                   else snd acc)))
           (\<lambda>b. None, \<lambda>b. disconnected) stationOrder"

definition activeFeedCount :: "(Block \<Rightarrow> ConnectionStatus) \<Rightarrow> nat" where
  "activeFeedCount st = length (filter (\<lambda>b. connected (st b)) stationOrder)"

text \<open>
  One run of the polling callback at time \<open>currentTime\<close> (seconds), given the four
  stations' answers and the answer of the legacy endpoint (\<open>None\<close>: the request throws).
\<close>

definition pollTick ::
  "rat \<Rightarrow> (Block \<Rightarrow> FeedData option) \<Rightarrow> LatestDetection option \<Rightarrow> LiveFeedState \<Rightarrow> LiveFeedState" where
  "pollTick currentTime fetched legacy s =
     (let newFeeds = fst (pollStations currentTime fetched);
          newConnectionStatus = snd (pollStations currentTime fetched);
          n = activeFeedCount newConnectionStatus;
          s1 = s\<lparr> view := (view s)\<lparr> stationPiFeeds := newFeeds \<rparr>,
                  stationConnectionStatus := newConnectionStatus,
                  piStatus := (if n > 0 then SystemActive n else WaitingForFeeds) \<rparr>
      in case legacy of
           None \<Rightarrow> s1\<lparr> piStatus := BackendOffline \<rparr>
         | Some d \<Rightarrow>
             if truthy_str (ld_annotatedImage d) then
               s1\<lparr> view := (view s1)\<lparr>
                      piImage := Some (jpeg_data_url (ld_annotatedImage d)),
                      piRawImage := (if truthy_str (ld_cleanImage d)
                                     then Some (jpeg_data_url (ld_cleanImage d))
                                     else piRawImage (view s1)) \<rparr>,
                    piStats := \<lparr> ps_dents = ld_dentCount d, ps_scratches = ld_scratchCount d,
                                 ps_cracks = ld_crackCount d \<rparr> \<rparr>
             else s1)"

text \<open>
  The callback awaits twice. Its first part ends when the four stations have answered:
  feeds, statuses and the status line are stored. Its second part ends when the legacy
  endpoint has answered. Other events can come between the two.
\<close>

definition pollStationsPart ::
  "rat \<Rightarrow> (Block \<Rightarrow> FeedData option) \<Rightarrow> LiveFeedState \<Rightarrow> LiveFeedState" where
  "pollStationsPart currentTime fetched s =
     (let newFeeds = fst (pollStations currentTime fetched);
          newConnectionStatus = snd (pollStations currentTime fetched);
          n = activeFeedCount newConnectionStatus
      in s\<lparr> view := (view s)\<lparr> stationPiFeeds := newFeeds \<rparr>,
            stationConnectionStatus := newConnectionStatus,
            piStatus := (if n > 0 then SystemActive n else WaitingForFeeds) \<rparr>)"

definition pollLegacyPart :: "LatestDetection option \<Rightarrow> LiveFeedState \<Rightarrow> LiveFeedState" where
  "pollLegacyPart legacy s1 =
     (case legacy of
        None \<Rightarrow> s1\<lparr> piStatus := BackendOffline \<rparr>
      | Some d \<Rightarrow>
          if truthy_str (ld_annotatedImage d) then
            s1\<lparr> view := (view s1)\<lparr>
                   piImage := Some (jpeg_data_url (ld_annotatedImage d)),
                   piRawImage := (if truthy_str (ld_cleanImage d)
                                  then Some (jpeg_data_url (ld_cleanImage d))
                                  else piRawImage (view s1)) \<rparr>,
                 piStats := \<lparr> ps_dents = ld_dentCount d, ps_scratches = ld_scratchCount d,
                              ps_cracks = ld_crackCount d \<rparr> \<rparr>
          else s1)"

section \<open>LiveFeed.tsx: changing the source\<close>

text \<open>
  \<open>startStationWebcam\<close> up to its request for the stream: the station is marked loading.
\<close>

definition startStationWebcam_begin :: "Block \<Rightarrow> FeedView \<Rightarrow> FeedView" where
  "startStationWebcam_begin station v =
     v\<lparr> stationWebcams := (stationWebcams v)(station :=
          (stationWebcams v station)\<lparr> wc_loading := True, wc_error := None \<rparr>) \<rparr>"

text \<open>
  \<open>startStationWebcam\<close> from the answer on: the stream is stored, or the error. Neither
  branch looks at the source selected by then.
\<close>

definition startStationWebcam_end :: "Block \<Rightarrow> string + nat \<Rightarrow> FeedView \<Rightarrow> FeedView" where
  "startStationWebcam_end station outcome v =
     v\<lparr> stationWebcams := (stationWebcams v)(station :=
          (case outcome of
             Inr h \<Rightarrow> (stationWebcams v station)\<lparr> stream := Some h, wc_loading := False \<rparr>
           | Inl msg \<Rightarrow> (stationWebcams v station)\<lparr> wc_error := Some msg,
                                                     wc_loading := False \<rparr>)) \<rparr>"

text \<open>\<open>blocksList.forEach\<close> of the calls, each up to its request.\<close>

definition startAllWebcams_begin :: "FeedView \<Rightarrow> FeedView" where
  "startAllWebcams_begin v = foldl (\<lambda>acc b. startStationWebcam_begin b acc) v stationOrder"

definition stopStationWebcam :: "Block \<Rightarrow> FeedView \<Rightarrow> FeedView" where
  "stopStationWebcam station v =
     v\<lparr> stationWebcams := (stationWebcams v)(station :=
          (stationWebcams v station)\<lparr> stream := None, wc_loading := False,
                                       wc_error := None \<rparr>) \<rparr>"

text \<open>\<open>blocksList.forEach(block => stopStationWebcam(block))\<close>.\<close>

definition stopAllWebcams :: "FeedView \<Rightarrow> FeedView" where
  "stopAllWebcams v = foldl (\<lambda>acc b. stopStationWebcam b acc) v stationOrder"

text \<open>
  The effect that stops the sequencer: with the source \<open>none\<close> and a timer armed, the
  timer is cancelled and the sequencer's state is cleared.
\<close>

definition forceCancel :: "LiveFeedState \<Rightarrow> LiveFeedState" where
  "forceCancel s =
     (if videoSource (view s) = src_none \<and> autoCaptureTimerRef s \<noteq> None
      then s\<lparr> autoCaptureTimerRef := None, autoCapturing := False,
              currentAutoStation := None \<rparr>
      else s)"

text \<open>
  The effects that depend on \<open>videoSource\<close>, run after it has changed: the previous
  source's cleanup stops every station's webcam, and the sequencer is stopped when the
  source is \<open>none\<close>. (Opening the webcams and polling are asynchronous and are events of
  their own, see \<open>apply_event\<close>.)
\<close>

definition sourceChangeEffects :: "LiveFeedState \<Rightarrow> LiveFeedState" where
  "sourceChangeEffects s = forceCancel (s\<lparr> view := stopAllWebcams (view s) \<rparr>)"

text \<open>The source selector: \<open>setVideoSource(v)\<close> and the effects of the change.\<close>

definition setVideoSource :: "VideoSource \<Rightarrow> LiveFeedState \<Rightarrow> LiveFeedState" where
  "setVideoSource v s =
     (if v = videoSource (view s) then s
      else sourceChangeEffects (s\<lparr> view := (view s)\<lparr> videoSource := v \<rparr> \<rparr>))"

text \<open>The Clear button of the master control, and the effects of the source change.\<close>

definition clearButton :: "LiveFeedState \<Rightarrow> LiveFeedState" where
  "clearButton s =
     (let s1 = s\<lparr> autoCaptureTimerRef := None, autoCapturing := False,
                  currentAutoStation := None,
                  view := (view s)\<lparr> videoSource := src_none, piImage := None,
                                     piRawImage := None \<rparr> \<rparr>
      in if videoSource (view s) = src_none then s1 else sourceChangeEffects s1)"

section \<open>The page as a transition system\<close>

text \<open>
  The application as a whole: the component, the state of \<open>App\<close> that its callback
  updates, and the asynchronous calls that are under way. The latter are not variables of
  the source. Each entry of \<open>pending\<close> stands for a call of \<open>analyzeImageFile\<close> that is
  awaited, with the station and the still its continuation holds. Each entry of
  \<open>webcamCalls\<close> stands for the opening of the webcams scheduled by a change to the webcam
  source, or for one station's stream request that is awaited. Each entry of \<open>polls\<close>
  stands for a run of the polling callback that awaits the stations or the legacy
  endpoint. What such a call stores when it resumes does not depend on the source
  selected by then.
\<close>

datatype RequestKind = FeedCapture | FileUpload

record PendingRequest =
  pr_block :: Block
  pr_image :: string
  pr_kind :: RequestKind

datatype WebcamCall = StartAll | Awaiting Block

datatype PollStage = AwaitStations | AwaitLegacy

record World =
  feed :: LiveFeedState
  feedAnalysis :: FeedAnalysis
  serviceRecord :: ServiceRecord
  pending :: "PendingRequest list"
  webcamCalls :: "WebcamCall list"
  polls :: "PollStage list"

definition initialWorld :: World where
  "initialWorld = \<lparr> feed = initialLiveFeed, feedAnalysis = initialFeedAnalysis,
     serviceRecord = initialServiceRecord, pending = [], webcamCalls = [], polls = [] \<rparr>"

text \<open>What the page renders for a station: \<open>isLive\<close> and the controls that depend on the slot.\<close>

definition isLive :: "FeedView \<Rightarrow> Block \<Rightarrow> bool" where
  "isLive v block =
     (videoSource v = src_pi
      \<or> (videoSource v = src_webcam \<and> stream (stationWebcams v block) \<noteq> None)
      \<or> (videoSource v = src_rpi
          \<and> findCamera (availableRpiCameras v) (selectedRpiCameras v block) \<noteq> None))"

definition captureButtonEnabled :: "LiveFeedState \<Rightarrow> Block \<Rightarrow> bool" where
  "captureButtonEnabled s block =
     (\<not> truthy_str (afterImage (blocks s block)) \<and> isLive (view s) block)"

definition uploadShown :: "LiveFeedState \<Rightarrow> Block \<Rightarrow> bool" where
  "uploadShown s block = (\<not> truthy_str (afterImage (blocks s block)))"

definition resetShown :: "LiveFeedState \<Rightarrow> Block \<Rightarrow> bool" where
  "resetShown s block =
     (truthy_str (bs_beforeImage (blocks s block)) \<or> truthy_str (afterImage (blocks s block))
      \<or> loading (blocks s block))"

text \<open>\<open>onAnalysisComplete\<close> is \<open>handleAnalysisComplete\<close> of \<open>App\<close>.\<close>

definition notify :: "(Block \<times> AnalysisResult) option \<Rightarrow> World \<Rightarrow> World" where
  "notify call w =
     (case call of
        None \<Rightarrow> w
      | Some (block, result) \<Rightarrow>
          w\<lparr> feedAnalysis := fst (handleAnalysisComplete block result (feedAnalysis w, serviceRecord w)),
             serviceRecord := snd (handleAnalysisComplete block result (feedAnalysis w, serviceRecord w)) \<rparr>)"

text \<open>A call of \<open>captureFromFeed\<close>, of the render \<open>v\<close>, up to its request.\<close>

definition beginCapture :: "FeedView \<Rightarrow> CaptureEnv \<Rightarrow> Block \<Rightarrow> World \<Rightarrow> World" where
  "beginCapture v env block w =
     (case captureFromFeed_begin v env block (feed w) of
        Inl e \<Rightarrow> w
      | Inr (url, s') \<Rightarrow>
          w\<lparr> feed := s',
             pending := pending w @ [\<lparr> pr_block = block, pr_image = url, pr_kind = FeedCapture \<rparr>] \<rparr>)"

text \<open>The answer to the pending request at position \<open>i\<close>.\<close>

definition answer :: "nat \<Rightarrow> AnalysisOutcome \<Rightarrow> World \<Rightarrow> World" where
  "answer i outcome w =
     (if i < length (pending w) then
        (let r = pending w ! i;
             res = (case pr_kind r of
                      FeedCapture \<Rightarrow> captureFromFeed_complete (pr_block r) (pr_image r) outcome (feed w)
                    | FileUpload \<Rightarrow> upload_complete (pr_block r) (pr_image r) outcome (feed w))
         in notify (snd res)
              (w\<lparr> feed := fst res, pending := take i (pending w) @ drop (Suc i) (pending w) \<rparr>))
      else w)"

datatype Event =
    SelectSource VideoSource
  | WebcamsBegin nat
  | WebcamOpened nat "string + nat"
  | PollStart
  | PollStations nat rat "Block \<Rightarrow> FeedData option"
  | PollLegacy nat "LatestDetection option"
  | CaptureClick CaptureEnv Block
  | UploadFile Block string
  | Answer nat AnalysisOutcome
  | ResetClick Block
  | AutoCaptureClick
  | TimerTick CaptureEnv
  | ClearClick

text \<open>
  One event of the page. An event whose control is not rendered, or whose timer is not
  running, or that resumes a call that is not under way, changes nothing.

  A change to the webcam source schedules the opening of the four webcams
  (\<open>WebcamsBegin\<close>: the four calls of \<open>startStationWebcam\<close>, each up to its request;
  \<open>WebcamOpened\<close>: one request answered). The polling timer fires only while the remote
  feed is selected (\<open>PollStart\<close>); the callback then resumes when the stations have
  answered (\<open>PollStations\<close>) and when the legacy endpoint has (\<open>PollLegacy\<close>). A timer tick
  of the sequencer runs its callback and, when it calls \<open>captureFromFeed\<close>, that call up
  to its request.
\<close>

fun apply_event :: "Event \<Rightarrow> World \<Rightarrow> World" where
  "apply_event (SelectSource v) w =
     w\<lparr> feed := setVideoSource v (feed w),
        webcamCalls := (if v = src_webcam \<and> videoSource (view (feed w)) \<noteq> src_webcam
                        then webcamCalls w @ [StartAll] else webcamCalls w) \<rparr>"
| "apply_event (WebcamsBegin i) w =
     (if i < length (webcamCalls w) \<and> webcamCalls w ! i = StartAll
      then w\<lparr> feed := (feed w)\<lparr> view := startAllWebcams_begin (view (feed w)) \<rparr>,
              webcamCalls := take i (webcamCalls w) @ drop (Suc i) (webcamCalls w)
                             @ map Awaiting stationOrder \<rparr>
      else w)"
| "apply_event (WebcamOpened i outcome) w =
     (if i < length (webcamCalls w) then
        (case webcamCalls w ! i of
           StartAll \<Rightarrow> w
         | Awaiting block \<Rightarrow>
             w\<lparr> feed := (feed w)\<lparr> view := startStationWebcam_end block outcome (view (feed w)) \<rparr>,
                webcamCalls := take i (webcamCalls w) @ drop (Suc i) (webcamCalls w) \<rparr>)
      else w)"
| "apply_event PollStart w =
     (if videoSource (view (feed w)) = src_pi
      then w\<lparr> polls := polls w @ [AwaitStations] \<rparr>
      else w)"
| "apply_event (PollStations i currentTime fetched) w =
     (if i < length (polls w) \<and> polls w ! i = AwaitStations
      then w\<lparr> feed := pollStationsPart currentTime fetched (feed w),
              polls := (polls w)[i := AwaitLegacy] \<rparr>
      else w)"
| "apply_event (PollLegacy i legacy) w =
     (if i < length (polls w) \<and> polls w ! i = AwaitLegacy
      then w\<lparr> feed := pollLegacyPart legacy (feed w),
              polls := take i (polls w) @ drop (Suc i) (polls w) \<rparr>
      else w)"
| "apply_event (CaptureClick env block) w =
     (if captureButtonEnabled (feed w) block
      then beginCapture (view (feed w)) env block w
      else w)"
| "apply_event (UploadFile block url) w =
     (if uploadShown (feed w) block
      then w\<lparr> feed := upload_begin block url (feed w),
              pending := pending w @ [\<lparr> pr_block = block, pr_image = url, pr_kind = FileUpload \<rparr>] \<rparr>
      else w)"
| "apply_event (Answer i outcome) w = answer i outcome w"
| "apply_event (ResetClick block) w =
     (if resetShown (feed w) block then w\<lparr> feed := resetBlock block (feed w) \<rparr> else w)"
| "apply_event AutoCaptureClick w =
     (case startAutoCapture (feed w) of Inl e \<Rightarrow> w | Inr s' \<Rightarrow> w\<lparr> feed := s' \<rparr>)"
| "apply_event (TimerTick env) w =
     (case snd (autoCaptureTick (feed w)) of
        None \<Rightarrow> w\<lparr> feed := fst (autoCaptureTick (feed w)) \<rparr>
      | Some (v, block) \<Rightarrow> beginCapture v env block (w\<lparr> feed := fst (autoCaptureTick (feed w)) \<rparr>))"
| "apply_event ClearClick w =
     (if videoSource (view (feed w)) \<noteq> src_none then w\<lparr> feed := clearButton (feed w) \<rparr> else w)"

text \<open>
  A sequence of events, applied in order. The states the page can be in are those that
  some sequence of events reaches from \<open>initialWorld\<close>.
\<close>

definition run :: "Event list \<Rightarrow> World \<Rightarrow> World" where
  "run es w = foldl (\<lambda>acc e. apply_event e acc) w es"

text \<open>The number of unanswered analysis requests of a station.\<close>

definition outstanding :: "World \<Rightarrow> Block \<Rightarrow> nat" where
  "outstanding w block = length (filter (\<lambda>r. pr_block r = block) (pending w))"

section \<open>Auxiliary definitions and sample states\<close>

text \<open>An entry of \<open>feedAnalysis\<close> with the given numbers of scratches and dents.\<close>

definition exampleEntry :: "rat \<Rightarrow> rat \<Rightarrow> FeedEntry" where
  "exampleEntry a b = initialEntry\<lparr> fe_scratches := Some a, fe_dents := Some b \<rparr>"

text \<open>The component right after the operator has selected the remote feed.\<close>

definition piSelected :: LiveFeedState where
  "piSelected = setVideoSource src_pi initialLiveFeed"

text \<open>Sample inputs: a page that answers nothing, bodies of the two feed endpoints.\<close>

definition sampleEnv :: CaptureEnv where
  "sampleEnv = \<lparr> sourceFetchOk = True, snapshot = None, videoMounted = False,
     canvasContext = False, canvasBlob = False, canvasDataUrl = [] \<rparr>"

definition sampleLegacy :: LatestDetection where
  "sampleLegacy = \<lparr> ld_annotatedImage = Some ''QUJD'', ld_cleanImage = Some ''REVG'',
     ld_dentCount = Some 0, ld_scratchCount = Some 0, ld_crackCount = Some 0 \<rparr>"

definition noFrames :: "Block \<Rightarrow> FeedData option" where
  "noFrames b = None"

definition frameAt :: "rat \<Rightarrow> FeedData" where
  "frameAt t = \<lparr> fd_annotatedImage = Some ''QUJD'', fd_timestamp = Some t \<rparr>"

text \<open>
  At time 1000: front has a frame 2.9 s old, left one 3.1 s old, right's request fails,
  brake answers with a timestamp and no image.
\<close>

definition sampleFetch :: "Block \<Rightarrow> FeedData option" where
  "sampleFetch b = (case b of front \<Rightarrow> Some (frameAt (9971 / 10))
                    | left \<Rightarrow> Some (frameAt (9969 / 10))
                    | right \<Rightarrow> None
                    | brake \<Rightarrow> Some \<lparr> fd_annotatedImage = None, fd_timestamp = Some 1000 \<rparr>)"

text \<open>An analysis body with counts and without \<open>annotatedImage\<close>.\<close>

definition noImageResponse :: AnalysisResponse where
  "noImageResponse = \<lparr> res_annotatedImage = None, scratchCount = Present 0,
     dentCount = Present 0, crackCount = Present 0, res_imageUrl = None,
     res_annotatedImageUrl = None \<rparr>"

text \<open>
  The operator selects the remote feed and one poll comes back: no station has a frame,
  the legacy endpoint has an annotated and a clean image.
\<close>

definition sharedFeedOnly :: "Event list" where
  "sharedFeedOnly = [SelectSource src_pi, PollStart, PollStations 0 1000 noFrames,
                     PollLegacy 0 (Some sampleLegacy)]"






text \<open>Every busy slot has an unanswered request.\<close>

definition busy_accounted :: "World \<Rightarrow> bool" where
  "busy_accounted w = (\<forall>b. loading (blocks (feed w) b) \<longrightarrow> 0 < outstanding w b)"

section \<open>The repair bill\<close>

lemma stationCost_Some:
  "fe_scratches e = Some a \<Longrightarrow> fe_dents e = Some b \<Longrightarrow> stationCost (Some e) = a * 300 + b * 500"
  by (simp add: stationCost_def entryCounts_def nullish_def)

text \<open>
  Claim C1. Whatever the four stations' scratch and dent counts and whatever the brake
  wear rate, \<open>updateTotalCost\<close> stores as the total the sum over the four stations of
  scratches times 300 plus dents times 500, plus the brake wear rate times 20, plus 500.
\<close>

theorem updateTotalCost_formula:
  assumes entries: "\<And>b. ua b = Some (e b)"
      and sc: "\<And>b. fe_scratches (e b) = Some (sc b)"
      and dn: "\<And>b. fe_dents (e b) = Some (dn b)"
      and wear: "brake_wear_rate sr = Some w"
  shows "total_cost (updateTotalCost ua sr)
         = (\<Sum>b\<leftarrow>stationOrder. sc b * 300 + dn b * 500) + w * 20 + 500"
  using wear
  by (simp add: updateTotalCost_def Let_def entries stationCost_Some [OF sc dn]
      stationOrder_def nullish_def)

text \<open>
  The example of the specification: front 2 scratches and 1 dent, left none, right 1
  scratch, brake none, brake wear rate 45.5: the total is 2810.
\<close>

theorem updateTotalCost_example:
  "total_cost (updateTotalCost
       (\<lambda>b. Some (exampleEntry (case b of front \<Rightarrow> 2 | left \<Rightarrow> 0 | right \<Rightarrow> 1 | brake \<Rightarrow> 0)
                                (case b of front \<Rightarrow> 1 | _ \<Rightarrow> 0)))
       (initialServiceRecord\<lparr> brake_wear_rate := Some (455 / 10) \<rparr>)) = 2810"
  using updateTotalCost_formula
    [of "\<lambda>b. Some (exampleEntry (case b of front \<Rightarrow> 2 | left \<Rightarrow> 0 | right \<Rightarrow> 1 | brake \<Rightarrow> 0)
                                (case b of front \<Rightarrow> 1 | _ \<Rightarrow> 0))"
        "\<lambda>b. exampleEntry (case b of front \<Rightarrow> 2 | left \<Rightarrow> 0 | right \<Rightarrow> 1 | brake \<Rightarrow> 0)
                                (case b of front \<Rightarrow> 1 | _ \<Rightarrow> 0)"
        "\<lambda>b. case b of front \<Rightarrow> 2 | left \<Rightarrow> 0 | right \<Rightarrow> 1 | brake \<Rightarrow> 0"
        "\<lambda>b. case b of front \<Rightarrow> 1 | _ \<Rightarrow> 0"
        "initialServiceRecord\<lparr> brake_wear_rate := Some (455 / 10) \<rparr>" "455 / 10"]
  by (simp add: exampleEntry_def stationOrder_def)

text \<open>
  Claim C10. Whatever fields the result handed to \<open>handleAnalysisComplete\<close> has, the
  station's new entry holds numbers for scratches and dents, zero for an absent one, and
  the recomputed total is the other stations' cost plus the station's counts (zero when
  absent) times 300 and 500, plus the brake wear charge and the flat 500.
\<close>

theorem handleAnalysisComplete_total_defined:
  "total_cost (snd (handleAnalysisComplete block result (fa, sr)))
     = (\<Sum>b\<leftarrow>filter (\<lambda>b. b \<noteq> block) stationOrder. stationCost (fa b))
       + (case scratches result of None \<Rightarrow> 0 | Some x \<Rightarrow> x) * 300
       + (case dents result of None \<Rightarrow> 0 | Some x \<Rightarrow> x) * 500
       + (case brake_wear_rate sr of None \<Rightarrow> 0 | Some x \<Rightarrow> x) * 20 + 500
   \<and> (\<exists>e. fst (handleAnalysisComplete block result (fa, sr)) block = Some e
          \<and> fe_scratches e = Some (case scratches result of None \<Rightarrow> 0 | Some x \<Rightarrow> x)
          \<and> fe_dents e = Some (case dents result of None \<Rightarrow> 0 | Some x \<Rightarrow> x))"
  by (cases block)
     (simp_all add: handleAnalysisComplete_def updateTotalCost_def Let_def stationCost_def
       entryCounts_def resultEntry_def nullish_def stationOrder_def)

section \<open>Resetting a station\<close>

text \<open>
  Claim C8. \<open>resetBlock\<close> empties every field of the station's slot, does not look at the
  video source, and leaves the other stations' slots and the rest of the state as they
  were.
\<close>

theorem resetBlock_frame:
  "blocks (resetBlock block s) block = emptyBlock
   \<and> bs_beforeImage (blocks (resetBlock block s) block) = None
   \<and> afterImage (blocks (resetBlock block s) block) = None
   \<and> \<not> loading (blocks (resetBlock block s) block)
   \<and> analysisResult (blocks (resetBlock block s) block) = emptyResult
   \<and> (\<forall>other. other \<noteq> block \<longrightarrow> blocks (resetBlock block s) other = blocks s other)
   \<and> view (resetBlock block s) = view s"
  by (simp add: resetBlock_def emptyBlock_def)

theorem resetBlock_frame_witness:
  "left \<noteq> front
   \<and> blocks (resetBlock front (markLoading left ''b'' (markLoading front ''a'' piSelected))) front
       = emptyBlock
   \<and> blocks (resetBlock front (markLoading left ''b'' (markLoading front ''a'' piSelected))) left
       = blocks (markLoading left ''b'' (markLoading front ''a'' piSelected)) left
   \<and> bs_beforeImage (blocks (markLoading left ''b'' (markLoading front ''a'' piSelected)) left)
       = Some ''b''"
  using resetBlock_frame [of front "markLoading left ''b'' (markLoading front ''a'' piSelected)"]
  by (simp add: markLoading_def setBlock_def)

section \<open>The auto-capture sequencer\<close>









lemma beginCapture_cases:
  "(beginCapture v env b w = w \<and> (\<exists>e. acquireFrame v env b = Inl e))
   \<or> (\<exists>url. acquireFrame v env b = Inr url \<and>
         beginCapture v env b w = w\<lparr> feed := markLoading b url (feed w),
            pending := pending w @ [\<lparr> pr_block = b, pr_image = url, pr_kind = FeedCapture \<rparr>] \<rparr>)"
  by (cases "acquireFrame v env b") (simp_all add: beginCapture_def captureFromFeed_begin_def)










lemma piSelected_simps:
  "videoSource (view piSelected) = src_pi" "\<not> autoCapturing piSelected"
  "captureCalls piSelected = []" "autoCaptureTimerRef piSelected = None"
  "blocks piSelected = (\<lambda>b. emptyBlock)"
  by (simp_all add: piSelected_def setVideoSource_def sourceChangeEffects_def forceCancel_def
      stopAllWebcams_def stopStationWebcam_def stationOrder_def initialLiveFeed_def
      initialView_def)

lemmas sample_run_defs = run_def sharedFeedOnly_def noFrames_def initialWorld_def
  initialLiveFeed_def initialView_def setVideoSource_def sourceChangeEffects_def
  forceCancel_def stopAllWebcams_def stopStationWebcam_def stationOrder_def pollTick_def
  pollStations_def stationResult_def fresh_def activeFeedCount_def disconnected_def
  sampleLegacy_def sampleEnv_def acquireFrame_def js_or_def truthy_str_def jpeg_data_url_def
  template_str_def Let_def captureButtonEnabled_def isLive_def beginCapture_def
  captureFromFeed_begin_def markLoading_def setBlock_def emptyBlock_def answer_def
  captureFromFeed_complete_def clearLoading_def notify_def resetShown_def
  startAutoCapture_def autoCaptureTick_def outstanding_def uploadShown_def upload_begin_def
  pollStationsPart_def pollLegacyPart_def


text \<open>
  Claim C5, as stated: an accepted start calls the capture of the front station at once,
  before the first tick. It does not: after the click the sequencer is running, no capture
  has been called, no request is under way and the front slot is empty; the first run of
  the timer callback makes the call.
\<close>

theorem start_makes_no_capture:
  "autoCapturing (feed (run (sharedFeedOnly @ [AutoCaptureClick]) initialWorld))
   \<and> captureCalls (feed (run (sharedFeedOnly @ [AutoCaptureClick]) initialWorld)) = []
   \<and> pending (run (sharedFeedOnly @ [AutoCaptureClick]) initialWorld) = []
   \<and> blocks (feed (run (sharedFeedOnly @ [AutoCaptureClick]) initialWorld)) front = emptyBlock
   \<and> captureCalls (feed (run (sharedFeedOnly @ [AutoCaptureClick, TimerTick sampleEnv])
        initialWorld)) = [front]
   \<and> outstanding (run (sharedFeedOnly @ [AutoCaptureClick, TimerTick sampleEnv])
        initialWorld) front = 1"
  by (simp add: sample_run_defs)

text \<open>
  Claim C5, amended. An accepted start sets the running flag, shows front as the current
  station and arms the timer with index 0; it calls no capture, changes no slot and sends
  no request. The capture of the front station is called by the first run of the timer
  callback.
\<close>

theorem start_arms_timer_only:
  assumes "videoSource (view (feed w)) \<noteq> src_none" and "\<not> autoCapturing (feed w)"
  shows "startAutoCapture (feed w)
           = Inr ((feed w)\<lparr> autoCapturing := True, currentAutoStation := Some front,
                   autoCaptureTimerRef := Some \<lparr> currentIndex = 0, closure = view (feed w) \<rparr> \<rparr>)
       \<and> captureCalls (feed (apply_event AutoCaptureClick w)) = captureCalls (feed w)
       \<and> blocks (feed (apply_event AutoCaptureClick w)) = blocks (feed w)
       \<and> pending (apply_event AutoCaptureClick w) = pending w
       \<and> snd (autoCaptureTick (feed (apply_event AutoCaptureClick w)))
           = Some (view (feed w), front)
       \<and> captureCalls (feed (apply_event (TimerTick env) (apply_event AutoCaptureClick w)))
           = captureCalls (feed w) @ [front]"
  using assms
  by (simp add: startAutoCapture_def autoCaptureTick_def stationOrder_def Let_def
      beginCapture_def captureFromFeed_begin_def markLoading_def setBlock_def
      split: sum.splits prod.splits)

theorem start_arms_timer_only_witness:
  "videoSource (view (feed (run sharedFeedOnly initialWorld))) \<noteq> src_none
   \<and> \<not> autoCapturing (feed (run sharedFeedOnly initialWorld))
   \<and> captureCalls (feed (apply_event AutoCaptureClick (run sharedFeedOnly initialWorld))) = []
   \<and> pending (apply_event AutoCaptureClick (run sharedFeedOnly initialWorld)) = []
   \<and> captureCalls (feed (apply_event (TimerTick sampleEnv)
        (apply_event AutoCaptureClick (run sharedFeedOnly initialWorld)))) = [front]"
proof -
  have a: "videoSource (view (feed (run sharedFeedOnly initialWorld))) \<noteq> src_none"
    by (simp add: sample_run_defs)
  have b: "\<not> autoCapturing (feed (run sharedFeedOnly initialWorld))"
    by (simp add: sample_run_defs)
  have c: "captureCalls (feed (run sharedFeedOnly initialWorld)) = []"
    by (simp add: sample_run_defs)
  have d: "pending (run sharedFeedOnly initialWorld) = []"
    by (simp add: sample_run_defs)
  show ?thesis
    using start_arms_timer_only [OF a b, of sampleEnv] a b
    by (simp only: c d append_Nil simp_thms)
qed

section \<open>The connectivity flag of the remote feed\<close>

lemma pollStations_fst: "fst (pollStations now f) b = fst (stationResult (f b))"
  by (cases b) (simp_all add: pollStations_def stationOrder_def Let_def)

lemma pollStations_snd:
  "snd (pollStations now f) b =
     (if fresh now (snd (stationResult (f b)))
      then \<lparr> connected = True, lastUpdate = snd (stationResult (f b)) \<rparr> else disconnected)"
  by (cases b) (simp_all add: pollStations_def stationOrder_def Let_def)

lemma pollTick_status:
  "stationConnectionStatus (pollTick now f legacy s) = snd (pollStations now f)"
  by (simp add: pollTick_def Let_def split: option.splits)

lemma pollTick_feeds:
  "stationPiFeeds (view (pollTick now f legacy s)) = fst (pollStations now f)"
  by (simp add: pollTick_def Let_def split: option.splits)

text \<open>The two parts of the polling callback, one after the other, are \<open>pollTick\<close>.\<close>

lemma pollTick_parts:
  "pollTick now f legacy s = pollLegacyPart legacy (pollStationsPart now f s)"
  by (simp add: pollTick_def pollStationsPart_def pollLegacyPart_def Let_def)

lemma connected_exact:
  "connected (snd (pollStations now f) b) \<longleftrightarrow>
     (\<exists>d t. f b = Some d \<and> truthy_str (fd_annotatedImage d) \<and> fd_timestamp d = Some t
        \<and> t \<noteq> 0 \<and> now - t < 3)"
  by (auto simp: pollStations_snd fresh_def stationResult_def disconnected_def
      split: option.splits if_splits)

lemma connected_iff:
  "3 \<le> now \<Longrightarrow> connected (snd (pollStations now f) b) \<longleftrightarrow>
     (\<exists>d t. f b = Some d \<and> truthy_str (fd_annotatedImage d) \<and> fd_timestamp d = Some t \<and> now - t < 3)"
  by (auto simp: pollStations_snd fresh_def stationResult_def disconnected_def
      split: option.splits if_splits)

text \<open>
  Claim C7. After a run of the polling callback at time \<open>currentTime\<close> (at least 3, as a
  clock in seconds since 1970 is), a station is marked connected exactly when its answer
  in this run holds a frame with a timestamp less than 3 seconds old: a frame 2.9 s old
  gives connected, one 3.1 s old gives disconnected. The flags are computed from this
  run's answers alone: the state before the run and the legacy endpoint do not matter.
\<close>

theorem connectivity_recomputed:
  assumes "3 \<le> currentTime"
  shows "(connected (stationConnectionStatus (pollTick currentTime fetched legacy s) block)
            \<longleftrightarrow> (\<exists>d t. fetched block = Some d \<and> truthy_str (fd_annotatedImage d)
                        \<and> fd_timestamp d = Some t \<and> currentTime - t < 3))
       \<and> (\<forall>d. fetched block = Some d \<and> truthy_str (fd_annotatedImage d)
                \<and> fd_timestamp d = Some (currentTime - 29 / 10)
              \<longrightarrow> connected (stationConnectionStatus (pollTick currentTime fetched legacy s) block))
       \<and> (\<forall>d. fetched block = Some d \<and> fd_timestamp d = Some (currentTime - 31 / 10)
              \<longrightarrow> \<not> connected (stationConnectionStatus (pollTick currentTime fetched legacy s) block))
       \<and> stationConnectionStatus (pollTick currentTime fetched legacy s)
           = stationConnectionStatus (pollTick currentTime fetched legacy' s')"
proof -
  have iff: "connected (stationConnectionStatus (pollTick currentTime fetched legacy s) block)
            \<longleftrightarrow> (\<exists>d t. fetched block = Some d \<and> truthy_str (fd_annotatedImage d)
                        \<and> fd_timestamp d = Some t \<and> currentTime - t < 3)"
    using assms by (simp add: pollTick_status connected_iff)
  have a: "\<forall>d. fetched block = Some d \<and> truthy_str (fd_annotatedImage d)
                \<and> fd_timestamp d = Some (currentTime - 29 / 10)
              \<longrightarrow> connected (stationConnectionStatus (pollTick currentTime fetched legacy s) block)"
    unfolding iff by auto
  have b: "\<forall>d. fetched block = Some d \<and> fd_timestamp d = Some (currentTime - 31 / 10)
              \<longrightarrow> \<not> connected (stationConnectionStatus (pollTick currentTime fetched legacy s) block)"
    unfolding iff by auto
  have c: "stationConnectionStatus (pollTick currentTime fetched legacy s)
           = stationConnectionStatus (pollTick currentTime fetched legacy' s')"
    by (simp add: pollTick_status)
  from iff a b c show ?thesis by blast
qed

theorem connectivity_recomputed_witness:
  "(3::rat) \<le> 1000
   \<and> connected (stationConnectionStatus (pollTick 1000 sampleFetch None piSelected) front)
   \<and> \<not> connected (stationConnectionStatus (pollTick 1000 sampleFetch None piSelected) left)
   \<and> \<not> connected (stationConnectionStatus (pollTick 1000 sampleFetch None piSelected) right)
   \<and> \<not> connected (stationConnectionStatus (pollTick 1000 sampleFetch None piSelected) brake)"
proof -
  have h: "(3::rat) \<le> 1000" by simp
  show ?thesis
    using connectivity_recomputed [OF h, of sampleFetch None piSelected front]
      connectivity_recomputed [OF h, of sampleFetch None piSelected left]
      connectivity_recomputed [OF h, of sampleFetch None piSelected right]
      connectivity_recomputed [OF h, of sampleFetch None piSelected brake]
    by (auto simp: sampleFetch_def frameAt_def truthy_str_def intro: exI [of _ "9971 / 10"])
qed

section \<open>Capturing from the remote feed\<close>

text \<open>
  Claim C6, as stated: with the remote feed selected and no frame cached for a station,
  the capture fails and never takes a frame from elsewhere. It does take one: with no
  station frame and a clean image from the legacy endpoint, the capture of the front
  station goes ahead with the shared clean image and stores it in the slot.
\<close>

theorem pi_capture_substitutes_shared_feed:
  "videoSource (view (feed (run sharedFeedOnly initialWorld))) = src_pi
   \<and> stationPiFeeds (view (feed (run sharedFeedOnly initialWorld))) front = None
   \<and> acquireFrame (view (feed (run sharedFeedOnly initialWorld))) sampleEnv front
       = Inr ''data:image/jpeg;base64,REVG''
   \<and> bs_beforeImage (blocks (feed (run (sharedFeedOnly @ [CaptureClick sampleEnv front])
        initialWorld)) front) = Some ''data:image/jpeg;base64,REVG''
   \<and> loading (blocks (feed (run (sharedFeedOnly @ [CaptureClick sampleEnv front])
        initialWorld)) front)"
  by (simp add: sample_run_defs)

text \<open>
  Claim C6, amended. With the remote feed selected and no frame cached for the station,
  the capture uses the shared clean image of the legacy endpoint if there is one,
  otherwise the shared annotated image if there is one; only when all three are missing
  does it stop with the no-feed alert, and then nothing is stored and no request is sent.
\<close>

theorem pi_capture_fallback:
  assumes "videoSource v = src_pi" and "\<not> truthy_str (stationPiFeeds v block)"
      and "sourceFetchOk env"
  shows "(truthy_str (piRawImage v) \<longrightarrow>
            (\<exists>img. piRawImage v = Some img
               \<and> captureFromFeed_begin v env block s = Inr (img, markLoading block img s)))
       \<and> (\<not> truthy_str (piRawImage v) \<and> truthy_str (piImage v) \<longrightarrow>
            (\<exists>img. piImage v = Some img
               \<and> captureFromFeed_begin v env block s = Inr (img, markLoading block img s)))
       \<and> (\<not> truthy_str (piRawImage v) \<and> \<not> truthy_str (piImage v) \<longrightarrow>
            captureFromFeed_begin v env block s = Inl (NoPiFeedAvailable block)
            \<and> beginCapture v env block w = w)"
  using assms
  by (auto simp: captureFromFeed_begin_def beginCapture_def acquireFrame_def js_or_def
      truthy_str_def Let_def split: option.splits)

theorem pi_capture_fallback_witness:
  "videoSource (view piSelected) = src_pi
   \<and> \<not> truthy_str (stationPiFeeds (view piSelected) front)
   \<and> sourceFetchOk sampleEnv
   \<and> \<not> truthy_str (piRawImage (view piSelected)) \<and> \<not> truthy_str (piImage (view piSelected))
   \<and> captureFromFeed_begin (view piSelected) sampleEnv front piSelected
       = Inl (NoPiFeedAvailable front)
   \<and> videoSource (view (feed (run sharedFeedOnly initialWorld))) = src_pi
   \<and> \<not> truthy_str (stationPiFeeds (view (feed (run sharedFeedOnly initialWorld))) front)
   \<and> truthy_str (piRawImage (view (feed (run sharedFeedOnly initialWorld))))
   \<and> captureFromFeed_begin (view (feed (run sharedFeedOnly initialWorld))) sampleEnv front
        piSelected
       = Inr (''data:image/jpeg;base64,REVG'',
              markLoading front ''data:image/jpeg;base64,REVG'' piSelected)"
proof -
  have v: "stationPiFeeds (view piSelected) front = None" "piRawImage (view piSelected) = None"
    "piImage (view piSelected) = None"
    by (simp_all add: piSelected_def setVideoSource_def sourceChangeEffects_def forceCancel_def
        stopAllWebcams_def stopStationWebcam_def stationOrder_def initialLiveFeed_def
        initialView_def)
  have a: "videoSource (view piSelected) = src_pi" by (simp add: piSelected_simps)
  have b: "\<not> truthy_str (stationPiFeeds (view piSelected) front)"
    by (simp add: v truthy_str_def)
  have c: "sourceFetchOk sampleEnv" by (simp add: sampleEnv_def)
  have d: "\<not> truthy_str (piRawImage (view piSelected)) \<and> \<not> truthy_str (piImage (view piSelected))"
    by (simp add: v truthy_str_def)
  have a': "videoSource (view (feed (run sharedFeedOnly initialWorld))) = src_pi"
    by (simp add: sample_run_defs)
  have b': "\<not> truthy_str (stationPiFeeds (view (feed (run sharedFeedOnly initialWorld))) front)"
    by (simp add: sample_run_defs)
  have raw: "piRawImage (view (feed (run sharedFeedOnly initialWorld)))
             = Some ''data:image/jpeg;base64,REVG''"
    by (simp add: sample_run_defs)
  have d': "truthy_str (piRawImage (view (feed (run sharedFeedOnly initialWorld))))"
    by (simp add: raw truthy_str_def)
  have first: "captureFromFeed_begin (view piSelected) sampleEnv front piSelected
       = Inl (NoPiFeedAvailable front)"
    using pi_capture_fallback [OF a b c, of piSelected] d by blast
  have second: "captureFromFeed_begin (view (feed (run sharedFeedOnly initialWorld))) sampleEnv
        front piSelected
       = Inr (''data:image/jpeg;base64,REVG'',
              markLoading front ''data:image/jpeg;base64,REVG'' piSelected)"
    using pi_capture_fallback [OF a' b' c, of piSelected] d' raw by auto
  from a b c d first a' b' d' second show ?thesis by blast
qed

section \<open>A capture whose analysis fails\<close>

text \<open>
  Claim C3, as stated: after a failed capture the slot is as if it had never been
  captured, the busy flag apart. It is not: the still taken for the capture stays in the
  slot as \<open>beforeImage\<close>, and the station's reset control, hidden before, is shown.
\<close>

theorem failed_capture_not_as_never_captured:
  "blocks (feed (run (sharedFeedOnly @ [CaptureClick sampleEnv front,
        Answer 0 (Inl AnalysisRequestFailed)]) initialWorld)) front
     \<noteq> blocks (feed (run sharedFeedOnly initialWorld)) front
   \<and> bs_beforeImage (blocks (feed (run (sharedFeedOnly @ [CaptureClick sampleEnv front,
        Answer 0 (Inl AnalysisRequestFailed)]) initialWorld)) front)
       = Some ''data:image/jpeg;base64,REVG''
   \<and> \<not> loading (blocks (feed (run sharedFeedOnly initialWorld)) front)
   \<and> \<not> resetShown (feed (run sharedFeedOnly initialWorld)) front
   \<and> resetShown (feed (run (sharedFeedOnly @ [CaptureClick sampleEnv front,
        Answer 0 (Inl AnalysisRequestFailed)]) initialWorld)) front"
  by (simp add: sample_run_defs)

text \<open>
  Claim C3, amended. For every station, when the analysis request of a capture fails
  (\<open>analyzeImageFile\<close> throws), and for an uploaded file also when the answer has no
  \<open>annotatedImage\<close>, the slot's annotated image and result stay as they were before the
  capture, the busy flag is cleared, the still of the failed capture stays as
  \<open>beforeImage\<close>, the other stations' slots are untouched and the cost aggregator is not
  called.
\<close>

theorem failed_analysis_keeps_results:
  "(let s' = fst (captureFromFeed_complete block url (Inl err) (markLoading block url s))
    in blocks s' block = (blocks s block)\<lparr> loading := False, bs_beforeImage := Some url \<rparr>
       \<and> afterImage (blocks s' block) = afterImage (blocks s block)
       \<and> analysisResult (blocks s' block) = analysisResult (blocks s block)
       \<and> \<not> loading (blocks s' block)
       \<and> (\<forall>other. other \<noteq> block \<longrightarrow> blocks s' other = blocks s other))
   \<and> snd (captureFromFeed_complete block url (Inl err) (markLoading block url s)) = None
   \<and> (outcome = Inl err \<or> (\<exists>r. outcome = Inr r \<and> \<not> truthy_str (res_annotatedImage r)) \<longrightarrow>
        (let s' = fst (upload_complete block url outcome (upload_begin block url s))
         in blocks s' block = (blocks s block)\<lparr> loading := False, bs_beforeImage := Some url \<rparr>
            \<and> afterImage (blocks s' block) = afterImage (blocks s block)
            \<and> analysisResult (blocks s' block) = analysisResult (blocks s block)
            \<and> \<not> loading (blocks s' block)
            \<and> (\<forall>other. other \<noteq> block \<longrightarrow> blocks s' other = blocks s other))
        \<and> snd (upload_complete block url outcome (upload_begin block url s)) = None)"
  by (auto simp: captureFromFeed_complete_def upload_complete_def upload_begin_def
      clearLoading_def markLoading_def setBlock_def Let_def)

theorem failed_analysis_keeps_results_witness:
  "left \<noteq> front
   \<and> blocks (fst (captureFromFeed_complete front ''a'' (Inl AnalysisRequestFailed)
         (markLoading front ''a'' piSelected))) front
       = emptyBlock\<lparr> bs_beforeImage := Some ''a'' \<rparr>
   \<and> blocks (fst (captureFromFeed_complete front ''a'' (Inl AnalysisRequestFailed)
         (markLoading front ''a'' piSelected))) left = emptyBlock
   \<and> \<not> truthy_str (res_annotatedImage noImageResponse)
   \<and> blocks (fst (upload_complete front ''a'' (Inr noImageResponse)
         (upload_begin front ''a'' piSelected))) front
       = emptyBlock\<lparr> bs_beforeImage := Some ''a'' \<rparr>"
  using failed_analysis_keeps_results
    [of front "''a''" AnalysisRequestFailed piSelected "Inr noImageResponse"]
  by (simp add: Let_def piSelected_simps noImageResponse_def truthy_str_def emptyBlock_def)

text \<open>
  The live capture has no check of the answer's \<open>annotatedImage\<close>, which the upload
  handler has: an answer without it is stored, with an image URL ending in \<open>undefined\<close>.
\<close>

lemma capture_accepts_body_without_image:
  "afterImage (blocks (fst (captureFromFeed_complete front ''a'' (Inr noImageResponse)
       (markLoading front ''a'' piSelected))) front) = Some ''data:image/jpeg;base64,undefined''
   \<and> analysisResult (blocks (fst (captureFromFeed_complete front ''a'' (Inr noImageResponse)
       (markLoading front ''a'' piSelected))) front)
     = emptyResult\<lparr> scratches := Some 0, dents := Some 0, cracks := Some 0,
         brakeStatus := Some Good \<rparr>"
  by (simp add: captureFromFeed_complete_def storeResult_def markLoading_def setBlock_def
      noImageResponse_def jpeg_data_url_def template_str_def brakeStatusOf_def hasDefects_def
      nullable_def toNumber_def)

section \<open>Busy slots and unanswered requests\<close>

lemma blocks_setVideoSource: "blocks (setVideoSource v s) = blocks s"
  by (simp add: setVideoSource_def sourceChangeEffects_def forceCancel_def)

lemma blocks_clearButton: "blocks (clearButton s) = blocks s"
  by (simp add: clearButton_def sourceChangeEffects_def forceCancel_def Let_def)

lemma blocks_pollTick: "blocks (pollTick now f legacy s) = blocks s"
  by (simp add: pollTick_def Let_def split: option.splits)

lemma blocks_pollStationsPart: "blocks (pollStationsPart now f s) = blocks s"
  by (simp add: pollStationsPart_def Let_def)

lemma blocks_pollLegacyPart: "blocks (pollLegacyPart legacy s) = blocks s"
  by (simp add: pollLegacyPart_def split: option.splits)

lemma busy_same:
  "busy_accounted w \<Longrightarrow> blocks (feed w') = blocks (feed w) \<Longrightarrow> pending w' = pending w
   \<Longrightarrow> busy_accounted w'"
  by (simp add: busy_accounted_def outstanding_def)

lemma blocks_autoCaptureTick: "blocks (fst (autoCaptureTick s)) = blocks s"
  by (simp add: autoCaptureTick_def Let_def split: option.splits)

lemma blocks_startAutoCapture: "startAutoCapture s = Inr s' \<Longrightarrow> blocks s' = blocks s"
  by (auto simp: startAutoCapture_def split: if_splits)

lemma outstanding_append:
  "outstanding (w\<lparr> feed := s, pending := pending w @ [r] \<rparr>) b
     = outstanding w b + (if pr_block r = b then 1 else 0)"
  by (simp add: outstanding_def)

lemma outstanding_feed: "outstanding (w\<lparr> feed := s \<rparr>) b = outstanding w b"
  by (simp add: outstanding_def)

lemma filter_remove_nth:
  assumes i: "i < length xs" and n: "\<not> P (xs ! i)"
  shows "length (filter P (take i xs)) + length (filter P (drop (Suc i) xs))
         = length (filter P xs)"
proof -
  have "xs = take i xs @ xs ! i # drop (Suc i) xs" using i by (rule id_take_nth_drop)
  then have "filter P xs = filter P (take i xs @ xs ! i # drop (Suc i) xs)" by simp
  with n show ?thesis by simp
qed

lemma busy_markLoading:
  "busy_accounted w \<Longrightarrow>
   busy_accounted (w\<lparr> feed := markLoading b url (feed w),
       pending := pending w @ [\<lparr> pr_block = b, pr_image = url, pr_kind = k \<rparr>] \<rparr>)"
  by (auto simp: busy_accounted_def outstanding_append markLoading_def setBlock_def)

lemma busy_beginCapture:
  "busy_accounted w \<Longrightarrow> busy_accounted (beginCapture v env b w)"
  using beginCapture_cases [of v env b w] by (auto intro: busy_markLoading)

lemma busy_feed_same_blocks:
  "busy_accounted w \<Longrightarrow> blocks s = blocks (feed w) \<Longrightarrow> busy_accounted (w\<lparr> feed := s \<rparr>)"
  by (simp add: busy_accounted_def outstanding_feed)

lemma answer_blocks:
  "i < length (pending w) \<Longrightarrow>
   \<not> loading (blocks (feed (answer i outcome w)) (pr_block (pending w ! i)))
   \<and> (\<forall>b. b \<noteq> pr_block (pending w ! i) \<longrightarrow>
         blocks (feed (answer i outcome w)) b = blocks (feed w) b)
   \<and> pending (answer i outcome w) = take i (pending w) @ drop (Suc i) (pending w)"
  by (auto simp: answer_def Let_def notify_def captureFromFeed_complete_def upload_complete_def
      clearLoading_def storeResult_def setBlock_def
      split: RequestKind.splits sum.splits option.splits prod.splits)

lemma busy_answer: "busy_accounted w \<Longrightarrow> busy_accounted (answer i outcome w)"
proof (cases "i < length (pending w)")
  case False
  assume "busy_accounted w"
  with False show ?thesis by (simp add: answer_def)
next
  case True
  assume inv: "busy_accounted w"
  note A = answer_blocks [OF True, of outcome]
  show ?thesis
    unfolding busy_accounted_def
  proof (intro allI impI)
    fix b assume l: "loading (blocks (feed (answer i outcome w)) b)"
    with A have ne: "b \<noteq> pr_block (pending w ! i)" by auto
    with A l have "loading (blocks (feed w) b)" by simp
    with inv have "0 < outstanding w b" by (simp add: busy_accounted_def)
    moreover have "outstanding (answer i outcome w) b = outstanding w b"
      using A ne True by (simp add: outstanding_def filter_remove_nth)
    ultimately show "0 < outstanding (answer i outcome w) b" by simp
  qed
qed

lemma busy_step: "busy_accounted w \<Longrightarrow> busy_accounted (apply_event e w)"
proof (cases e)
  case (CaptureClick env b)
  assume "busy_accounted w" then show ?thesis using CaptureClick by (simp add: busy_beginCapture)
next
  case (UploadFile b url)
  assume "busy_accounted w" then show ?thesis using UploadFile
    by (simp add: upload_begin_def busy_markLoading)
next
  case (Answer i outcome)
  assume "busy_accounted w" then show ?thesis using Answer by (simp add: busy_answer)
next
  case (ResetClick b)
  assume "busy_accounted w" then show ?thesis using ResetClick
    by (auto simp: busy_accounted_def resetBlock_def emptyBlock_def outstanding_feed)
next
  case AutoCaptureClick
  assume "busy_accounted w" then show ?thesis using AutoCaptureClick
    by (auto split: sum.splits intro: busy_feed_same_blocks dest: blocks_startAutoCapture)
next
  case (TimerTick env)
  assume inv: "busy_accounted w"
  have "busy_accounted (w\<lparr> feed := fst (autoCaptureTick (feed w)) \<rparr>)"
    using inv by (rule busy_feed_same_blocks) (simp add: blocks_autoCaptureTick)
  then show ?thesis using TimerTick
    by (auto split: option.splits intro: busy_beginCapture)
next
  case (SelectSource v)
  assume "busy_accounted w" then show ?thesis using SelectSource
    by (auto elim: busy_same simp: blocks_setVideoSource)
next
  case (WebcamsBegin i)
  assume "busy_accounted w" then show ?thesis using WebcamsBegin
    by (auto elim: busy_same)
next
  case (WebcamOpened i outcome)
  assume "busy_accounted w" then show ?thesis using WebcamOpened
    by (auto elim: busy_same split: WebcamCall.splits)
next
  case PollStart
  assume "busy_accounted w" then show ?thesis using PollStart
    by (auto elim: busy_same)
next
  case (PollStations i now f)
  assume "busy_accounted w" then show ?thesis using PollStations
    by (auto elim: busy_same simp: blocks_pollStationsPart)
next
  case (PollLegacy i legacy)
  assume "busy_accounted w" then show ?thesis using PollLegacy
    by (auto elim: busy_same simp: blocks_pollLegacyPart)
next
  case ClearClick
  assume "busy_accounted w" then show ?thesis using ClearClick
    by (auto intro: busy_feed_same_blocks simp: blocks_clearButton)
qed

lemma busy_initial: "busy_accounted initialWorld"
  by (simp add: busy_accounted_def initialWorld_def initialLiveFeed_def emptyBlock_def)

lemma busy_run: "busy_accounted (run es initialWorld)"
  by (induction es rule: rev_induct) (simp_all add: run_def busy_initial busy_step)

text \<open>
  Claim C4, as stated: while a slot is busy, no manual capture, timer tick or upload
  starts a second capture on that station. They do: two clicks on the front station's
  capture button, a click followed by the sequencer's first tick, and two uploads each
  leave two requests unanswered on the front station, the slot being busy after the first.
\<close>

theorem two_captures_on_one_station:
  "loading (blocks (feed (run (sharedFeedOnly @ [CaptureClick sampleEnv front]) initialWorld))
      front)
   \<and> outstanding (run (sharedFeedOnly @ [CaptureClick sampleEnv front,
        CaptureClick sampleEnv front]) initialWorld) front = 2
   \<and> outstanding (run (sharedFeedOnly @ [CaptureClick sampleEnv front, AutoCaptureClick,
        TimerTick sampleEnv]) initialWorld) front = 2
   \<and> outstanding (run [UploadFile front ''a'', UploadFile front ''b''] initialWorld) front = 2"
  by (simp add: sample_run_defs)

text \<open>
  Claim C4, amended. In every state the page can reach, a busy slot has at least one
  unanswered analysis request on its station. Nothing looks at the busy flag before a
  capture: an enabled capture button, a timer tick that calls the capture, and an upload
  each add one unanswered request for the station when the frame is there, busy or not,
  so more than one can be outstanding on a station.
\<close>

theorem busy_not_exclusive:
  "(loading (blocks (feed (run es initialWorld)) block)
      \<longrightarrow> 0 < outstanding (run es initialWorld) block)
   \<and> (captureButtonEnabled (feed w) block \<and> acquireFrame (view (feed w)) env block = Inr url
        \<longrightarrow> outstanding (apply_event (CaptureClick env block) w) block
              = Suc (outstanding w block))
   \<and> (snd (autoCaptureTick (feed w)) = Some (v, block) \<and> acquireFrame v env block = Inr url
        \<longrightarrow> outstanding (apply_event (TimerTick env) w) block = Suc (outstanding w block))
   \<and> (uploadShown (feed w) block
        \<longrightarrow> outstanding (apply_event (UploadFile block url) w) block
              = Suc (outstanding w block))"
proof -
  have a: "loading (blocks (feed (run es initialWorld)) block)
      \<longrightarrow> 0 < outstanding (run es initialWorld) block"
    using busy_run [of es] by (simp add: busy_accounted_def)
  have b: "captureButtonEnabled (feed w) block \<and> acquireFrame (view (feed w)) env block = Inr url
            \<longrightarrow> outstanding (apply_event (CaptureClick env block) w) block
                  = Suc (outstanding w block)"
    by (simp add: beginCapture_def captureFromFeed_begin_def outstanding_append)
  have c: "snd (autoCaptureTick (feed w)) = Some (v, block) \<and> acquireFrame v env block = Inr url
            \<longrightarrow> outstanding (apply_event (TimerTick env) w) block = Suc (outstanding w block)"
    by (simp add: beginCapture_def captureFromFeed_begin_def outstanding_def)
  have d: "uploadShown (feed w) block
            \<longrightarrow> outstanding (apply_event (UploadFile block url) w) block
                  = Suc (outstanding w block)"
    by (simp add: outstanding_def)
  from a b c d show ?thesis by blast
qed

theorem busy_not_exclusive_witness:
  "loading (blocks (feed (run [UploadFile front ''a''] initialWorld)) front)
   \<and> 0 < outstanding (run [UploadFile front ''a''] initialWorld) front
   \<and> uploadShown (feed (run [UploadFile front ''a''] initialWorld)) front
   \<and> outstanding (apply_event (UploadFile front ''b'')
        (run [UploadFile front ''a''] initialWorld)) front = 2"
proof -
  have l: "loading (blocks (feed (run [UploadFile front ''a''] initialWorld)) front)"
    by (simp add: sample_run_defs)
  have u: "uploadShown (feed (run [UploadFile front ''a''] initialWorld)) front"
    by (simp add: sample_run_defs)
  have o: "outstanding (run [UploadFile front ''a''] initialWorld) front = 1"
    by (simp add: sample_run_defs)
  from busy_not_exclusive [of "[UploadFile front ''a'']" front
      "run [UploadFile front ''a''] initialWorld" sampleEnv "''b''" "view initialLiveFeed"] l u
  have "0 < outstanding (run [UploadFile front ''a''] initialWorld) front"
    and "outstanding (apply_event (UploadFile front ''b'')
        (run [UploadFile front ''a''] initialWorld)) front
         = Suc (outstanding (run [UploadFile front ''a''] initialWorld) front)"
    by blast+
  with l u o show ?thesis by simp
qed

section \<open>Changing the source and the slots\<close>

text \<open>
  Claim C9. Selecting another video source, and the Clear button of the master control
  (which sets the source to none, stops the sequencer and drops the shared remote-feed
  images), leave the four stations' slots and the aggregated results as they are. Of all
  events of the page only a station's reset empties a slot: after any other event a
  captured still and an annotated image that were there are still there.
\<close>

theorem source_change_keeps_slots:
  "blocks (setVideoSource v s) = blocks s
   \<and> blocks (clearButton s) = blocks s
   \<and> videoSource (view (clearButton s)) = src_none
   \<and> autoCaptureTimerRef (clearButton s) = None \<and> \<not> autoCapturing (clearButton s)
   \<and> currentAutoStation (clearButton s) = None
   \<and> piImage (view (clearButton s)) = None \<and> piRawImage (view (clearButton s)) = None
   \<and> blocks (feed (apply_event (SelectSource v) w)) = blocks (feed w)
   \<and> blocks (feed (apply_event ClearClick w)) = blocks (feed w)
   \<and> feedAnalysis (apply_event (SelectSource v) w) = feedAnalysis w
   \<and> feedAnalysis (apply_event ClearClick w) = feedAnalysis w
   \<and> (\<forall>e b. (\<forall>b'. e \<noteq> ResetClick b') \<longrightarrow>
         (bs_beforeImage (blocks (feed w) b) \<noteq> None
            \<longrightarrow> bs_beforeImage (blocks (feed (apply_event e w)) b) \<noteq> None)
       \<and> (afterImage (blocks (feed w) b) \<noteq> None
            \<longrightarrow> afterImage (blocks (feed (apply_event e w)) b) \<noteq> None))"
proof -
  have keep: "\<forall>e b. (\<forall>b'. e \<noteq> ResetClick b') \<longrightarrow>
         (bs_beforeImage (blocks (feed w) b) \<noteq> None
            \<longrightarrow> bs_beforeImage (blocks (feed (apply_event e w)) b) \<noteq> None)
       \<and> (afterImage (blocks (feed w) b) \<noteq> None
            \<longrightarrow> afterImage (blocks (feed (apply_event e w)) b) \<noteq> None)"
  proof (intro allI impI)
    fix e b assume "\<forall>b'. e \<noteq> ResetClick b'"
    then show "(bs_beforeImage (blocks (feed w) b) \<noteq> None
            \<longrightarrow> bs_beforeImage (blocks (feed (apply_event e w)) b) \<noteq> None)
       \<and> (afterImage (blocks (feed w) b) \<noteq> None
            \<longrightarrow> afterImage (blocks (feed (apply_event e w)) b) \<noteq> None)"
      using blocks_startAutoCapture [of "feed w"]
      by (cases e)
         (auto simp: beginCapture_def captureFromFeed_begin_def markLoading_def setBlock_def
            upload_begin_def answer_def Let_def notify_def captureFromFeed_complete_def
            upload_complete_def clearLoading_def storeResult_def blocks_setVideoSource
            blocks_clearButton blocks_pollStationsPart blocks_pollLegacyPart
            blocks_autoCaptureTick
            split: sum.splits option.splits prod.splits RequestKind.splits WebcamCall.splits
              if_splits)
  qed
  have clr: "videoSource (view (clearButton s)) = src_none
   \<and> autoCaptureTimerRef (clearButton s) = None \<and> \<not> autoCapturing (clearButton s)
   \<and> currentAutoStation (clearButton s) = None
   \<and> piImage (view (clearButton s)) = None \<and> piRawImage (view (clearButton s)) = None"
    by (simp add: clearButton_def sourceChangeEffects_def forceCancel_def Let_def
        stopAllWebcams_def stopStationWebcam_def stationOrder_def)
  show ?thesis using keep clr by (simp add: blocks_setVideoSource blocks_clearButton)
qed

theorem source_change_keeps_slots_witness:
  "(\<forall>b'. ClearClick \<noteq> ResetClick b')
   \<and> bs_beforeImage (blocks (feed (run (sharedFeedOnly @ [CaptureClick sampleEnv front])
        initialWorld)) front) \<noteq> None
   \<and> bs_beforeImage (blocks (feed (apply_event ClearClick
        (run (sharedFeedOnly @ [CaptureClick sampleEnv front]) initialWorld))) front) \<noteq> None
   \<and> blocks (feed (apply_event ClearClick
        (run (sharedFeedOnly @ [CaptureClick sampleEnv front]) initialWorld)))
       = blocks (feed (run (sharedFeedOnly @ [CaptureClick sampleEnv front]) initialWorld))"
proof -
  have a: "\<forall>b'. ClearClick \<noteq> ResetClick b'" by simp
  have b: "bs_beforeImage (blocks (feed (run (sharedFeedOnly @ [CaptureClick sampleEnv front])
        initialWorld)) front) \<noteq> None"
    by (simp add: sample_run_defs)
  from source_change_keeps_slots
    [of src_none "feed (run (sharedFeedOnly @ [CaptureClick sampleEnv front]) initialWorld)"
        "run (sharedFeedOnly @ [CaptureClick sampleEnv front]) initialWorld"] a b
  show ?thesis by blast
qed

end
